theory Spec2Isabelle
  imports Main
begin

unbundle bit_operations_syntax

section \<open>Data model\<close>

text \<open>
  LabJackPython.py is Python 2. A command or response is a Python list of ints; the list
  is a mutable object, and \<open>setChecksum\<close>, \<open>setChecksum8\<close> and \<open>setChecksum16\<close> write
  into the list they are given and return that very object. The lists therefore live in
  a store: a reference is an address, the heap maps each address to the current contents
  of its list. Python ints are unbounded, so a list element is an \<open>int\<close>; \<open>x & 0xff\<close> is
  \<open>x AND 0xff\<close> and \<open>x >> 8\<close> is \<open>drop_bit 8 x\<close> (both floor towards minus infinity, as
  Python's do).

  Exceptions are values: a function that can raise returns \<open>exn + 'a\<close> together with
  the heap at the moment it returns or raises.
\<close>

datatype exn =
    LabJackException string
  | IndexError string
  | StructError string
  | SocketError string

type_synonym ref = nat
type_synonym heap = "ref \<Rightarrow> int list"

text \<open>\<open>str(e)\<close> of an exception is its message.\<close>

fun str_exn :: "exn \<Rightarrow> string" where
  "str_exn (LabJackException s) = s"
| "str_exn (IndexError s) = s"
| "str_exn (StructError s) = s"
| "str_exn (SocketError s) = s"

text \<open>\<open>"%s" % n\<close> for an int \<open>n\<close>: its decimal digits, with a minus sign when negative.\<close>

fun str_nat :: "nat \<Rightarrow> string" where
  "str_nat n =
     (if n < 10 then [''0123456789'' ! n]
      else str_nat (n div 10) @ [''0123456789'' ! (n mod 10)])"

declare str_nat.simps [simp del]

definition str_int :: "int \<Rightarrow> string" where
  "str_int i = (if i < 0 then CHR ''-'' # str_nat (nat (- i)) else str_nat (nat i))"

section \<open>Checksum engine\<close>

text \<open>
  The accumulation loop shared by \<open>setChecksum16\<close> and \<open>setChecksum8\<close>:
  \<^verbatim>\<open>for i in range(a, b): total += (buffer[i] & 0xff)\<close>.
  Reading \<open>buffer[i]\<close> past the end raises IndexError.
\<close>

fun sumBytes :: "int list \<Rightarrow> nat list \<Rightarrow> int \<Rightarrow> exn + int" where
  "sumBytes buffer [] tot = Inr tot"
| "sumBytes buffer (i # rest) tot =
     (if i < length buffer then sumBytes buffer rest (tot + (buffer ! i AND 0xff))
      else Inl (IndexError ''list index out of range''))"

text \<open>
  \<^verbatim>\<open>
  def setChecksum16(buffer):
      total = 0;
      for i in range(6, len(buffer)):
          total += (buffer[i] & 0xff)
      buffer[4] = (total & 0xff)
      buffer[5] = ((total >> 8) & 0xff)
      return buffer
  \<close>
\<close>

definition setChecksum16 :: "ref \<Rightarrow> heap \<Rightarrow> (exn + ref) \<times> heap" where
  "setChecksum16 buffer h =
     (case sumBytes (h buffer) [6 ..< length (h buffer)] 0 of
        Inl e \<Rightarrow> (Inl e, h)
      | Inr tot \<Rightarrow>
          if length (h buffer) \<le> 4
          then (Inl (IndexError ''list assignment index out of range''), h)
          else
            let h1 = h(buffer := (h buffer)[4 := tot AND 0xff]) in
            if length (h1 buffer) \<le> 5
            then (Inl (IndexError ''list assignment index out of range''), h1)
            else (Inr buffer, h1(buffer := (h1 buffer)[5 := drop_bit 8 tot AND 0xff])))"

text \<open>
  \<^verbatim>\<open>
  def setChecksum8(buffer, numBytes):
      total = 0
      for i in range(1, numBytes):
          total += (buffer[i] & 0xff)
      buffer[0] = (total & 0xff) + ((total >> 8) & 0xff)
      buffer[0] = (buffer[0] & 0xff) + ((buffer[0] >> 8) & 0xff)
      return buffer
  \<close>
\<close>

definition setChecksum8 :: "ref \<Rightarrow> nat \<Rightarrow> heap \<Rightarrow> (exn + ref) \<times> heap" where
  "setChecksum8 buffer numBytes h =
     (case sumBytes (h buffer) [1 ..< numBytes] 0 of
        Inl e \<Rightarrow> (Inl e, h)
      | Inr tot \<Rightarrow>
          if h buffer = []
          then (Inl (IndexError ''list assignment index out of range''), h)
          else
            let h1 = h(buffer := (h buffer)[0 := (tot AND 0xff) + (drop_bit 8 tot AND 0xff)]);
                b0 = h1 buffer ! 0;
                h2 = h1(buffer := (h1 buffer)[0 := (b0 AND 0xff) + (drop_bit 8 b0 AND 0xff)])
            in (Inr buffer, h2))"

text \<open>
  The handlers that close \<open>setChecksum\<close>: a LabJackException is raised again as it is,
  any other exception becomes a LabJackException whose message is prefixed.
\<close>

fun reraise :: "exn \<Rightarrow> exn" where
  "reraise (LabJackException s) = LabJackException s"
| "reraise e = LabJackException (''SetChecksum Exception:'' @ str_exn e)"

text \<open>
  \<^verbatim>\<open>
  def setChecksum(command):
      if len(command) < 8:
          raise LabJackException("Command does not contain enough bytes.")
      try:
          a = command[1]
          a = (a & 0x78) >> 3
          if a == 15:
              command = setChecksum16(command)
              command = setChecksum8(command, 6)
              return command
          else:
              command = setChecksum8(command, len(command))
              return command
      except LabJackException, e:
          raise e
      except Exception, e:
          raise LabJackException("SetChecksum Exception:" + str(e))
  \<close>
\<close>

definition frameClass :: "int list \<Rightarrow> int" where
  "frameClass command = drop_bit 3 ((command ! 1) AND 0x78)"

definition setChecksum :: "ref \<Rightarrow> heap \<Rightarrow> (exn + ref) \<times> heap" where
  "setChecksum command h =
     (if length (h command) < 8
      then (Inl (LabJackException ''Command does not contain enough bytes.''), h)
      else
        let a = frameClass (h command);
            r = (if a = 15
                 then (case setChecksum16 command h of
                         (Inl e, h1) \<Rightarrow> (Inl e, h1)
                       | (Inr command1, h1) \<Rightarrow> setChecksum8 command1 6 h1)
                 else setChecksum8 command (length (h command)) h)
        in (case r of
              (Inl e, h2) \<Rightarrow> (Inl (reraise e), h2)
            | (Inr command2, h2) \<Rightarrow> (Inr command2, h2)))"

text \<open>
  \<^verbatim>\<open>
  def verifyChecksum(buffer):
      buff0 = buffer[0]
      buff4 = buffer[4]
      buff5 = buffer[5]
      tempBuffer = setChecksum(buffer)
      if (buff0 == tempBuffer[0]) and (buff4 == tempBuffer[4]) \
      and (buff5 == tempBuffer[5]):
          return True
      return False
  \<close>
  The three reads raise the same IndexError on a list of fewer than 1, 5 and 6
  elements; \<open>setChecksum\<close> is called on \<open>buffer\<close> itself, not on a copy.
\<close>

definition verifyChecksum :: "ref \<Rightarrow> heap \<Rightarrow> (exn + bool) \<times> heap" where
  "verifyChecksum buffer h =
     (if length (h buffer) \<le> 0 \<or> length (h buffer) \<le> 4 \<or> length (h buffer) \<le> 5
      then (Inl (IndexError ''list index out of range''), h)
      else
        let buff0 = h buffer ! 0;
            buff4 = h buffer ! 4;
            buff5 = h buffer ! 5
        in (case setChecksum buffer h of
              (Inl e, h1) \<Rightarrow> (Inl e, h1)
            | (Inr tempBuffer, h1) \<Rightarrow>
                (Inr (buff0 = h1 tempBuffer ! 0 \<and> buff4 = h1 tempBuffer ! 4
                      \<and> buff5 = h1 tempBuffer ! 5), h1)))"

subsection \<open>The checksums as values\<close>

text \<open>
  What the two routines store, as functions of the list contents: the byte sum over an
  index range, the two folds of \<open>setChecksum8\<close>, and the contents after \<open>setChecksum\<close>.
\<close>

definition byteSum :: "int list \<Rightarrow> nat \<Rightarrow> nat \<Rightarrow> int" where
  "byteSum buffer a b = sum_list (map (\<lambda>i. buffer ! i AND 0xff) [a ..< b])"

definition fold8 :: "int \<Rightarrow> int" where
  "fold8 s = (s AND 0xff) + (drop_bit 8 s AND 0xff)"

definition checksummed :: "int list \<Rightarrow> int list" where
  "checksummed f =
     (if frameClass f = 15
      then
        let g = f[4 := byteSum f 6 (length f) AND 0xff,
                  5 := drop_bit 8 (byteSum f 6 (length f)) AND 0xff]
        in g[0 := fold8 (fold8 (byteSum g 1 6))]
      else f[0 := fold8 (fold8 (byteSum f 1 (length f)))])"

subsection \<open>The reference algorithm of the specification\<close>

text \<open>
  The checksum engine in the specification's words, on the contents of a frame, with the
  carry-fold as a parameter. \<open>spec_fold\<close> is the fold the specification writes,
  \<open>(sum & 0xFF) + (sum >> 8)\<close>; \<open>fold8\<close> above is the one the source writes, with the
  high part masked as well. The frame-class nibble is bits 3 to 6 of byte 1; the 16-bit
  checksum stores the low byte of the sum of bytes 6..end at offset 4 and the high byte
  at offset 5. \<open>None\<close> is FrameTooShort.
\<close>

definition spec_fold :: "int \<Rightarrow> int" where
  "spec_fold s = (s AND 0xFF) + drop_bit 8 s"

definition spec_nibble :: "int list \<Rightarrow> int" where
  "spec_nibble frame = (frame ! 1 div 8) mod 16"

definition spec_checksum8 :: "(int \<Rightarrow> int) \<Rightarrow> int list \<Rightarrow> nat \<Rightarrow> int list" where
  "spec_checksum8 fld bytes count =
     bytes[0 := fld (fld (sum_list (map (\<lambda>i. bytes ! i) [1 ..< count])))]"

definition spec_checksum16 :: "int list \<Rightarrow> int list" where
  "spec_checksum16 bytes =
     (let s = sum_list (map (\<lambda>i. bytes ! i) [6 ..< length bytes])
      in bytes[4 := s mod 256, 5 := (s div 256) mod 256])"

definition spec_applyChecksum :: "(int \<Rightarrow> int) \<Rightarrow> int list \<Rightarrow> int list option" where
  "spec_applyChecksum fld frame =
     (if length frame < 8 then None
      else if spec_nibble frame = 15
      then Some (spec_checksum8 fld (spec_checksum16 frame) 6)
      else Some (spec_checksum8 fld frame (length frame)))"

text \<open>A byte sequence: every element is between 0 and 255.\<close>

definition isBytes :: "int list \<Rightarrow> bool" where
  "isBytes f = list_all (\<lambda>b. 0 \<le> b \<and> b \<le> 255) f"

text \<open>The store in which no list has any element yet.\<close>

definition heap0 :: heap where
  "heap0 = (\<lambda>r. [])"

section \<open>Properties of the checksum engine\<close>

lemma sumBytes_acc:
  "\<forall>i \<in> set idx. i < length buffer \<Longrightarrow>
   sumBytes buffer idx tot = Inr (tot + sum_list (map (\<lambda>i. buffer ! i AND 0xff) idx))"
  by (induction idx arbitrary: tot) simp_all

lemma sumBytes_upt:
  "b \<le> length buffer \<Longrightarrow> sumBytes buffer [a ..< b] 0 = Inr (byteSum buffer a b)"
  by (simp add: sumBytes_acc byteSum_def)

lemma setChecksum16_eq:
  "6 \<le> length (h buffer) \<Longrightarrow>
   setChecksum16 buffer h =
     (Inr buffer, h(buffer := (h buffer)[4 := byteSum (h buffer) 6 (length (h buffer)) AND 0xff,
                                        5 := drop_bit 8 (byteSum (h buffer) 6 (length (h buffer))) AND 0xff]))"
  by (simp add: setChecksum16_def sumBytes_upt Let_def)

lemma setChecksum8_eq:
  "Suc 0 \<le> length (h buffer) \<Longrightarrow> numBytes \<le> length (h buffer) \<Longrightarrow>
   setChecksum8 buffer numBytes h =
     (Inr buffer, h(buffer := (h buffer)[0 := fold8 (fold8 (byteSum (h buffer) 1 numBytes))]))"
  by (cases "h buffer") (simp_all add: setChecksum8_def sumBytes_upt Let_def fold8_def)

lemma setChecksum_eq:
  "8 \<le> length (h command) \<Longrightarrow>
   setChecksum command h = (Inr command, h(command := checksummed (h command)))"
  by (simp add: setChecksum_def setChecksum16_eq setChecksum8_eq checksummed_def Let_def)


lemma byteSum_cong:
  "(\<And>i. a \<le> i \<Longrightarrow> i < b \<Longrightarrow> xs ! i = ys ! i) \<Longrightarrow> byteSum xs a b = byteSum ys a b"
  unfolding byteSum_def by (rule arg_cong [where f = sum_list]) simp

lemma byteSum_update_outside:
  "i < a \<or> b \<le> i \<Longrightarrow> byteSum (xs[i := v]) a b = byteSum xs a b"
  by (rule byteSum_cong) (auto simp: nth_list_update)

lemma length_checksummed [simp]: "length (checksummed f) = length f"
  by (simp add: checksummed_def Let_def)

lemma frameClass_update: "i \<noteq> 1 \<Longrightarrow> frameClass (f[i := v]) = frameClass f"
  by (simp add: frameClass_def)

lemma frameClass_checksummed [simp]: "frameClass (checksummed f) = frameClass f"
  by (simp add: checksummed_def Let_def frameClass_update)

lemma update_045_again:
  "xs[4 := a, 5 := b, 0 := c, 4 := a, 5 := b] = xs[4 := a, 5 := b, 0 := c]"
proof (rule nth_equalityI)
  fix i assume "i < length (xs[4 := a, 5 := b, 0 := c, 4 := a, 5 := b])"
  then have "i < length xs" by simp
  then show "xs[4 := a, 5 := b, 0 := c, 4 := a, 5 := b] ! i = xs[4 := a, 5 := b, 0 := c] ! i"
    by (cases "i = 0"; cases "i = 4"; cases "i = 5") simp_all
qed simp

lemma checksummed_idem: "checksummed (checksummed f) = checksummed f"
proof (cases "frameClass f = 15")
  case True
  define lo where "lo = byteSum f 6 (length f) AND 0xff"
  define hi where "hi = drop_bit 8 (byteSum f 6 (length f)) AND 0xff"
  define c where "c = fold8 (fold8 (byteSum (f[4 := lo, 5 := hi]) 1 6))"
  have cf: "checksummed f = f[4 := lo, 5 := hi, 0 := c]"
    using True by (simp add: checksummed_def Let_def lo_def hi_def c_def)
  have s6: "byteSum (f[4 := lo, 5 := hi, 0 := c]) 6 (length f) = byteSum f 6 (length f)"
    by (simp add: byteSum_update_outside)
  have s1: "byteSum (f[4 := lo, 5 := hi, 0 := c]) (Suc 0) 6 = byteSum (f[4 := lo, 5 := hi]) (Suc 0) 6"
    by (simp add: byteSum_update_outside)
  have "checksummed (f[4 := lo, 5 := hi, 0 := c]) = f[4 := lo, 5 := hi, 0 := c]"
    using True
    apply (simp add: checksummed_def [of "f[4 := lo, 5 := hi, 0 := c]"] Let_def frameClass_update s6)
    apply (simp add: lo_def [symmetric] hi_def [symmetric] update_045_again s1)
    apply (simp add: c_def)
    done
  then show ?thesis by (simp add: cf)
next
  case False
  then show ?thesis
    by (simp add: checksummed_def Let_def frameClass_update byteSum_update_outside)
qed

lemma verifyChecksum_eq:
  "8 \<le> length (h b) \<Longrightarrow>
   verifyChecksum b h =
     (Inr (h b ! 0 = checksummed (h b) ! 0 \<and> h b ! 4 = checksummed (h b) ! 4
           \<and> h b ! 5 = checksummed (h b) ! 5), h(b := checksummed (h b)))"
  by (cases "h b") (simp_all add: verifyChecksum_def setChecksum_eq)

text \<open>
  Claim C1. For every frame of at least 8 elements, \<open>setChecksum\<close> succeeds, and
  \<open>verifyChecksum\<close> called on the list it returns, in the store it leaves, returns True.
\<close>

theorem verify_after_set:
  "8 \<le> length (h f) \<Longrightarrow>
   (case setChecksum f h of
      (Inr f', h') \<Rightarrow> fst (verifyChecksum f' h') = Inr True
    | (Inl e, h') \<Rightarrow> False)"
  by (simp add: setChecksum_eq verifyChecksum_eq checksummed_idem)


lemma and_255: "(x::int) AND 255 = x mod 256"
proof -
  have "x AND 255 = x AND mask 8" by (simp add: mask_eq_exp_minus_1)
  then show ?thesis by (simp add: take_bit_eq_mask [symmetric] take_bit_eq_mod)
qed

lemma frameClass_nibble: "frameClass f = spec_nibble f"
proof -
  have e: "(120::int) = push_bit 3 (mask 4)" by (simp add: mask_eq_exp_minus_1)
  have "drop_bit 3 (f ! 1 AND 120) = drop_bit 3 (f ! 1) AND mask 4"
    unfolding e by (rule bit_eqI) (auto simp: bit_simps)
  also have "\<dots> = (f ! 1 div 8) mod 16"
    by (simp add: take_bit_eq_mask [symmetric] take_bit_eq_mod drop_bit_eq_div)
  finally show ?thesis by (simp add: frameClass_def spec_nibble_def)
qed

lemma byte_nth: "isBytes f \<Longrightarrow> i < length f \<Longrightarrow> f ! i AND 255 = f ! i"
proof -
  assume "isBytes f" "i < length f"
  then have "0 \<le> f ! i" "f ! i < 256" by (auto simp: isBytes_def list_all_length)
  then show ?thesis by (simp add: and_255)
qed

lemma byteSum_bytes:
  "isBytes f \<Longrightarrow> b \<le> length f \<Longrightarrow> byteSum f a b = sum_list (map (\<lambda>i. f ! i) [a ..< b])"
  unfolding byteSum_def
  by (rule arg_cong [where f = sum_list]) (simp add: byte_nth)

lemma isBytes_update: "isBytes f \<Longrightarrow> 0 \<le> v \<Longrightarrow> v \<le> 255 \<Longrightarrow> isBytes (f[i := v])"
  unfolding isBytes_def list_all_iff by (auto dest!: set_update_subset_insert [THEN subsetD])

lemma checksummed_spec:
  assumes "8 \<le> length f" "isBytes f"
  shows "spec_applyChecksum fold8 f = Some (checksummed f)"
proof -
  let ?s = "byteSum f 6 (length f)"
  have b: "isBytes (f[4 := ?s AND 255, 5 := drop_bit 8 ?s AND 255])"
    using assms(2) by (intro isBytes_update) (simp_all add: and_255)
  show ?thesis
    using assms b
    by (simp add: spec_applyChecksum_def checksummed_def frameClass_nibble Let_def
        spec_checksum8_def spec_checksum16_def byteSum_bytes and_255 drop_bit_eq_div)
qed

text \<open>
  Claim C3. For every list of fewer than 8 elements, \<open>setChecksum\<close> raises the
  LabJackException "Command does not contain enough bytes." and the store is the one it
  was given: the length test comes before any checksum work and nothing is written.
\<close>

theorem setChecksum_too_short:
  "length (h command) < 8 \<Longrightarrow>
   setChecksum command h = (Inl (LabJackException ''Command does not contain enough bytes.''), h)"
  by (simp add: setChecksum_def)

theorem setChecksum_too_short_witness:
  "length ((heap0(0 := [0, 248, 3, 11])) 0) < 8 \<and>
   setChecksum 0 (heap0(0 := [0, 248, 3, 11])) =
     (Inl (LabJackException ''Command does not contain enough bytes.''), heap0(0 := [0, 248, 3, 11]))"
  using setChecksum_too_short [of "heap0(0 := [0, 248, 3, 11])" 0] by simp

theorem verify_after_set_witness:
  "8 \<le> length ((heap0(0 := [0, 248, 3, 11, 0, 0, 0, 0, 0, 0, 0, 0])) 0) \<and>
   (case setChecksum 0 (heap0(0 := [0, 248, 3, 11, 0, 0, 0, 0, 0, 0, 0, 0])) of
      (Inr f', h') \<Rightarrow> fst (verifyChecksum f' h') = Inr True
    | (Inl e, h') \<Rightarrow> False)"
  using verify_after_set [of "heap0(0 := [0, 248, 3, 11, 0, 0, 0, 0, 0, 0, 0, 0])" 0] by simp

end
